theory Spec2Isabelle
  imports Complex_Main
begin

section \<open>Python values shared by the four adapters\<close>

text \<open>
  The module \<^verbatim>\<open>feature_extraction.py\<close> wraps four external resources. Exceptions are
  values of \<open>error\<close>; a function that can raise returns \<open>error + 'a\<close>.
  \<open>RequestException\<close> stands for any transport failure of \<^verbatim>\<open>requests.get\<close>.
\<close>

datatype error = KeyError | IndexError | RequestException string

text \<open>
  The scores are floats produced by the libraries; the code only stores and returns them,
  so the float type is a parameter \<open>'s\<close>. The literals \<^verbatim>\<open>0\<close> and \<^verbatim>\<open>-1\<close> of the source are
  Python ints.
\<close>

datatype 's pyval = PyInt int | PyFloat 's

text \<open>\<^verbatim>\<open>xs[i]\<close> for a non-negative index.\<close>

definition list_getitem :: "'a list \<Rightarrow> nat \<Rightarrow> error + 'a" where
  "list_getitem xs i = (if i < length xs then Inr (xs ! i) else Inl IndexError)"

text \<open>
  \<^verbatim>\<open>s.split(" ")\<close>: cut at every single space; the empty string gives one empty token,
  consecutive spaces give empty tokens. A \<open>char\<close> stands for one character of the
  Python string.
\<close>

fun split_sp :: "string \<Rightarrow> string list" where
  "split_sp [] = [[]]"
| "split_sp (c # cs) =
     (if c = CHR '' '' then [] # split_sp cs
      else (c # hd (split_sp cs)) # tl (split_sp cs))"

text \<open>
  The first lines of \<^verbatim>\<open>get_pmi_score\<close> and of \<^verbatim>\<open>get_similarity_score\<close> are the same:
  \<^verbatim>\<open>
  candidates = phrase.split(" ")
  if len(candidates) < 2:
      candidates.extend(candidates[0])
  \<close>
  \<^verbatim>\<open>list.extend\<close> iterates over its argument; the argument is the string \<^verbatim>\<open>candidates[0]\<close>,
  so every character of it is appended as a one-character string.
\<close>

definition extend_str :: "string list \<Rightarrow> string \<Rightarrow> string list" where
  "extend_str xs w = xs @ map (\<lambda>c. [c]) w"

definition split_candidates :: "string \<Rightarrow> error + string list" where
  "split_candidates phrase =
     (let candidates = split_sp phrase in
      if length candidates < 2 then
        (case list_getitem candidates 0 of
           Inl e \<Rightarrow> Inl e
         | Inr w \<Rightarrow> Inr (extend_str candidates w))
      else Inr candidates)"

section \<open>NLTKCollocations\<close>

text \<open>
  A \<^verbatim>\<open>collections.defaultdict\<close>: the entries, and the value the default factory makes
  (\<open>None\<close> when there is no factory, as in a plain dict). Reading a missing key stores
  the factory's value under the key and returns it; without a factory it raises KeyError.
\<close>

record ('k, 'v) defaultdict =
  default_factory :: "'v option"
  entries :: "'k \<rightharpoonup> 'v"

definition dd_getitem ::
  "('k, 'v) defaultdict \<Rightarrow> 'k \<Rightarrow> error + ('v \<times> ('k, 'v) defaultdict)" where
  "dd_getitem d k =
     (case entries d k of
        Some v \<Rightarrow> Inr (v, d)
      | None \<Rightarrow>
          (case default_factory d of
             None \<Rightarrow> Inl KeyError
           | Some v \<Rightarrow> Inr (v, d\<lparr>entries := (entries d)(k \<mapsto> v)\<rparr>)))"

text \<open>
  The three association measures of \<^verbatim>\<open>BigramAssocMeasures\<close> the constructor uses, and the
  corpus statistics as the function \<^verbatim>\<open>bigram_finder.score_ngrams\<close>: for a measure, the
  list of scored bigrams. A key of a score table is a tuple of tokens.
\<close>

datatype measure = Likelihood_ratio | Chi_sq | Pmi

type_synonym 's scored_bigrams = "((string \<times> string) \<times> 's) list"
type_synonym 's score_dict = "(string list, 's list) defaultdict"

record 's NLTKCollocations =
  bigram_finder :: "measure \<Rightarrow> 's scored_bigrams"
  likelihood_ration_dict :: "'s score_dict"
  chi_sq_dict :: "'s score_dict"
  pmi_dict :: "'s score_dict"

text \<open>
  \<^verbatim>\<open>
  for key, scores in scored_bigrams:
      bigram_dict[key[0], key[1]].append(scores)
  \<close>
\<close>

fun build_loop :: "'s score_dict \<Rightarrow> 's scored_bigrams \<Rightarrow> error + 's score_dict" where
  "build_loop bigram_dict [] = Inr bigram_dict"
| "build_loop bigram_dict ((key, scores) # rest) =
     (case dd_getitem bigram_dict [fst key, snd key] of
        Inl e \<Rightarrow> Inl e
      | Inr (l, d) \<Rightarrow>
          build_loop (d\<lparr>entries := (entries d)([fst key, snd key] \<mapsto> l @ [scores])\<rparr>) rest)"

definition build_bigram_score_dict ::
  "(measure \<Rightarrow> 's scored_bigrams) \<Rightarrow> measure \<Rightarrow> error + 's score_dict" where
  "build_bigram_score_dict finder score =
     build_loop \<lparr>default_factory = Some [], entries = Map.empty\<rparr> (finder score)"

definition NLTKCollocations_init ::
  "(measure \<Rightarrow> 's scored_bigrams) \<Rightarrow> error + 's NLTKCollocations" where
  "NLTKCollocations_init finder =
     (case build_bigram_score_dict finder Likelihood_ratio of
        Inl e \<Rightarrow> Inl e
      | Inr l \<Rightarrow>
          (case build_bigram_score_dict finder Chi_sq of
             Inl e \<Rightarrow> Inl e
           | Inr c \<Rightarrow>
               (case build_bigram_score_dict finder Pmi of
                  Inl e \<Rightarrow> Inl e
                | Inr p \<Rightarrow>
                    Inr \<lparr>bigram_finder = finder, likelihood_ration_dict = l,
                         chi_sq_dict = c, pmi_dict = p\<rparr>)))"

text \<open>
  The constructor reads the corpus through \<^verbatim>\<open>bigram_finder\<close> only; the download of the
  corpus is outside the model. The three tables are three distinct objects.
\<close>

text \<open>
  The value both halves of the \<^verbatim>\<open>try\<close> append:
  \<^verbatim>\<open>
  if pmi_score:
      response_list.append(pmi_score[0])
  else:
      response_list.append(0)
  \<close>
  and the body of the \<^verbatim>\<open>try\<close> of \<^verbatim>\<open>get_pmi_score\<close>. It returns the exception raised,
  if any, with \<^verbatim>\<open>response_list\<close> and the object as they are at that moment: what was
  appended or stored before an exception stays.
\<close>

definition first_or_zero :: "'s list \<Rightarrow> 's pyval" where
  "first_or_zero score = (case score of [] \<Rightarrow> PyInt 0 | x # _ \<Rightarrow> PyFloat x)"

definition pmi_try ::
  "'s NLTKCollocations \<Rightarrow> string list \<Rightarrow> 's pyval list \<Rightarrow>
     error option \<times> 's pyval list \<times> 's NLTKCollocations" where
  "pmi_try self candidates response_list =
     (case dd_getitem (pmi_dict self) candidates of
        Inl e \<Rightarrow> (Some e, response_list, self)
      | Inr (pmi_score, pd) \<Rightarrow>
          (let self1 = self\<lparr>pmi_dict := pd\<rparr>;
               response_list1 = response_list @ [first_or_zero pmi_score]
           in case dd_getitem (chi_sq_dict self1) candidates of
                Inl e \<Rightarrow> (Some e, response_list1, self1)
              | Inr (chi_sq_score, cd) \<Rightarrow>
                  (None, response_list1 @ [first_or_zero chi_sq_score],
                   self1\<lparr>chi_sq_dict := cd\<rparr>)))"

definition get_pmi_score ::
  "'s NLTKCollocations \<Rightarrow> string \<Rightarrow> error + ('s pyval list \<times> 's NLTKCollocations)" where
  "get_pmi_score self phrase =
     (case split_candidates phrase of
        Inl e \<Rightarrow> Inl e
      | Inr candidates \<Rightarrow>
          (case pmi_try self candidates [] of
             (None, response_list, self') \<Rightarrow> Inr (response_list, self')
           | (Some KeyError, response_list, self') \<Rightarrow>
               Inr (response_list @ [PyInt 0, PyInt 0], self')
           | (Some e, response_list, self') \<Rightarrow> Inl e))"

text \<open>A sequence of calls of \<^verbatim>\<open>get_pmi_score\<close> on one object, results dropped.\<close>

fun pmi_calls :: "'s NLTKCollocations \<Rightarrow> string list \<Rightarrow> error + 's NLTKCollocations" where
  "pmi_calls self [] = Inr self"
| "pmi_calls self (phrase # rest) =
     (case get_pmi_score self phrase of
        Inl e \<Rightarrow> Inl e
      | Inr (r, self') \<Rightarrow> pmi_calls self' rest)"

section \<open>Wikidata\<close>

text \<open>
  A request as \<^verbatim>\<open>requests.get(chr_url, headers=..., proxies=...)\<close> sends it, the two
  fields of the response the code reads, and the network as a function from the request
  to the response or to the transport error raised.
\<close>

record request =
  url :: string
  req_headers :: "string \<rightharpoonup> string"
  req_proxies :: "string \<rightharpoonup> string"

record response =
  status_code :: int
  content :: string

type_synonym http = "request \<Rightarrow> error + response"

record Wikidata =
  headers :: "string \<rightharpoonup> string"
  proxies :: "string \<rightharpoonup> string"

text \<open>The module-level \<^verbatim>\<open>headers = {"Accept": "application/json"}\<close>.\<close>

definition module_headers :: "string \<rightharpoonup> string" where
  "module_headers = [''Accept'' \<mapsto> ''application/json'']"

text \<open>
  \<^verbatim>\<open>if http_proxy:\<close> holds for a string that is neither \<^verbatim>\<open>None\<close> nor empty.
\<close>

definition truthy_str :: "string option \<Rightarrow> bool" where
  "truthy_str x = (case x of None \<Rightarrow> False | Some s \<Rightarrow> s \<noteq> [])"

definition Wikidata_init :: "string option \<Rightarrow> string option \<Rightarrow> Wikidata" where
  "Wikidata_init http_proxy https_proxy =
     (let proxies0 = Map.empty;
          proxies1 = (if truthy_str http_proxy then proxies0(''http'' \<mapsto> the http_proxy)
                      else proxies0);
          proxies2 = (if truthy_str https_proxy then proxies1(''https'' \<mapsto> the https_proxy)
                      else proxies1)
      in \<lparr>headers = module_headers, proxies = proxies2\<rparr>)"

text \<open>The two literals around the phrase in \<^verbatim>\<open>chr_url\<close>, and \<^verbatim>\<open>empty_result\<close>.\<close>

definition url_head :: string where
  "url_head =
     ''https://query.wikidata.org/sparql?query='' @ [CHR 0x0A] @
     replicate 24 (CHR '' '') @ ''SELECT ?item ?lable'' @ [CHR 0x0A] @
     replicate 24 (CHR '' '') @ ''WHERE'' @ [CHR 0x0A] @
     replicate 24 (CHR '' '') @ ''{'' @ [CHR 0x0A] @
     replicate 28 (CHR '' '') @ ''?item ?label '' @ [CHR 0x27]"

definition url_tail :: string where
  "url_tail =
     [CHR 0x27] @ ''@en .'' @ [CHR 0x0A] @
     replicate 12 (CHR '' '') @
     ''SERVICE wikibase:label { bd:serviceParam wikibase:language '' @
     [CHR 0x22] @ ''en'' @ [CHR 0x22] @ ''. }'' @ [CHR 0x0A] @
     replicate 24 (CHR '' '') @ ''}'' @ [CHR 0x0A] @
     replicate 24 (CHR '' '') @ ''&format = JSON''"

definition empty_result :: string where
  "empty_result =
     ''{'' @ [CHR 0x0A] @
     ''  '' @ [CHR 0x22] @ ''head'' @ [CHR 0x22] @ '' : {'' @ [CHR 0x0A] @
     replicate 4 (CHR '' '') @ [CHR 0x22] @ ''vars'' @ [CHR 0x22] @ '' : [ '' @
     [CHR 0x22] @ ''item'' @ [CHR 0x22] @ '', '' @
     [CHR 0x22] @ ''lable'' @ [CHR 0x22] @ '' ]'' @ [CHR 0x0A] @
     ''  },'' @ [CHR 0x0A] @
     ''  '' @ [CHR 0x22] @ ''results'' @ [CHR 0x22] @ '' : {'' @ [CHR 0x0A] @
     replicate 4 (CHR '' '') @ [CHR 0x22] @ ''bindings'' @ [CHR 0x22] @ '' : [ ]'' @
     [CHR 0x0A] @ ''  }'' @ [CHR 0x0A] @ ''}''"

definition query_request :: "Wikidata \<Rightarrow> string \<Rightarrow> request" where
  "query_request self phrase =
     \<lparr>url = url_head @ phrase @ url_tail, req_headers = headers self,
      req_proxies = proxies self\<rparr>"

text \<open>
  \<^verbatim>\<open>has_item\<close> and \<^verbatim>\<open>find_wikidata_existence\<close> return their result, or the exception that
  left them, together with the requests they sent, in order.
\<close>

definition has_item :: "http \<Rightarrow> Wikidata \<Rightarrow> string \<Rightarrow> (error + bool) \<times> request list" where
  "has_item requests_get self phrase =
     (let chr_url = query_request self phrase in
      case requests_get chr_url of
        Inl e \<Rightarrow> (Inl e, [chr_url])
      | Inr r \<Rightarrow>
          (if status_code r = 200 \<and> empty_result \<noteq> content r then (Inr True, [chr_url])
           else (Inr False, [chr_url])))"

fun wikidata_loop :: "http \<Rightarrow> Wikidata \<Rightarrow> string list \<Rightarrow> (error + int) \<times> request list" where
  "wikidata_loop requests_get self [] = (Inr 0, [])"
| "wikidata_loop requests_get self (candidate # rest) =
     (case has_item requests_get self candidate of
        (Inl e, sent) \<Rightarrow> (Inl e, sent)
      | (Inr found, sent) \<Rightarrow>
          (if found then (Inr 1, sent)
           else (case wikidata_loop requests_get self rest of
                   (r, sent') \<Rightarrow> (r, sent @ sent'))))"

text \<open>
  \<^verbatim>\<open>for candidate in set(candidates)\<close> visits every distinct candidate once, in an order
  the language does not fix. The order is the parameter \<open>set_iter\<close>;
  \<open>py_set_iteration\<close> says what any order Python may choose satisfies.
\<close>

definition py_set_iteration :: "string list \<Rightarrow> string list \<Rightarrow> bool" where
  "py_set_iteration candidates order \<longleftrightarrow> distinct order \<and> set order = set candidates"

definition find_wikidata_existence ::
  "http \<Rightarrow> (string list \<Rightarrow> string list) \<Rightarrow> Wikidata \<Rightarrow> string list \<Rightarrow>
     (error + int) \<times> request list" where
  "find_wikidata_existence requests_get set_iter self candidates =
     wikidata_loop requests_get self (set_iter candidates)"

section \<open>Word2Vec\<close>

text \<open>
  The loaded \<^verbatim>\<open>KeyedVectors\<close>: the vocabulary with the vector of each word, and
  \<^verbatim>\<open>similarity\<close>, which the library computes and which may raise. \<^verbatim>\<open>word_vec\<close> raises
  KeyError for a word outside the vocabulary. The field \<open>model\<close> is \<open>None\<close> when
  \<^verbatim>\<open>self.model\<close> is falsy.
\<close>

record 's KeyedVectors =
  vocab :: "string \<rightharpoonup> 's list"
  similarity :: "string \<Rightarrow> string \<Rightarrow> error + 's"

record 's Word2Vec =
  word2vec_model_path :: string
  model :: "'s KeyedVectors option"

definition word_vec :: "'s KeyedVectors \<Rightarrow> string \<Rightarrow> error + 's list" where
  "word_vec m word = (case vocab m word of None \<Rightarrow> Inl KeyError | Some v \<Rightarrow> Inr v)"

definition load_word2vec_model_from_path ::
  "(string \<Rightarrow> error + 's KeyedVectors option) \<Rightarrow> string \<Rightarrow> error + 's KeyedVectors option" where
  "load_word2vec_model_from_path load_word2vec_format path =
     (case load_word2vec_format path of
        Inl e \<Rightarrow> Inl e
      | Inr None \<Rightarrow> Inr None
      | Inr (Some word_embeddings_model) \<Rightarrow> Inr (Some word_embeddings_model))"

definition Word2Vec_init ::
  "(string \<Rightarrow> error + 's KeyedVectors option) \<Rightarrow> string \<Rightarrow> error + 's Word2Vec" where
  "Word2Vec_init load_word2vec_format path =
     (case load_word2vec_model_from_path load_word2vec_format path of
        Inl e \<Rightarrow> Inl e
      | Inr m \<Rightarrow> Inr \<lparr>word2vec_model_path = path, model = m\<rparr>)"

text \<open>\<^verbatim>\<open>np.full((300,), -1)\<close>.\<close>

definition np_full_300 :: "'s pyval list" where
  "np_full_300 = replicate 300 (PyInt (- 1))"

definition get_word_embedding :: "'s Word2Vec \<Rightarrow> string \<Rightarrow> error + 's pyval list" where
  "get_word_embedding self word =
     (case model self of
        None \<Rightarrow> Inr np_full_300
      | Some m \<Rightarrow>
          (if vocab m word \<noteq> None then
             (case word_vec m word of
                Inl e \<Rightarrow> Inl e
              | Inr v \<Rightarrow> Inr (map PyFloat v))
           else Inr np_full_300))"

text \<open>
  The body of the \<^verbatim>\<open>try\<close> of \<^verbatim>\<open>get_similarity_score\<close>, with the calls of
  \<^verbatim>\<open>model.similarity\<close> it made. The arguments \<^verbatim>\<open>candidates[0]\<close> and \<^verbatim>\<open>candidates[1]\<close> are
  evaluated before the call.
\<close>

definition similarity_try ::
  "'s Word2Vec \<Rightarrow> string list \<Rightarrow> (error + 's pyval) \<times> (string \<times> string) list" where
  "similarity_try self candidates =
     (case model self of
        None \<Rightarrow> (Inr (PyInt (- 1)), [])
      | Some m \<Rightarrow>
          (case list_getitem candidates 0 of
             Inl e \<Rightarrow> (Inl e, [])
           | Inr w0 \<Rightarrow>
               (case list_getitem candidates 1 of
                  Inl e \<Rightarrow> (Inl e, [])
                | Inr w1 \<Rightarrow>
                    (case similarity m w0 w1 of
                       Inl e \<Rightarrow> (Inl e, [(w0, w1)])
                     | Inr x \<Rightarrow> (Inr (PyFloat x), [(w0, w1)])))))"

definition get_similarity_score ::
  "'s Word2Vec \<Rightarrow> string \<Rightarrow> (error + 's pyval) \<times> (string \<times> string) list" where
  "get_similarity_score self noun_phrase =
     (case split_candidates noun_phrase of
        Inl e \<Rightarrow> (Inl e, [])
      | Inr candidates \<Rightarrow>
          (if length candidates > 2 then (Inr (PyInt (- 1)), [])
           else (case similarity_try self candidates of
                   (Inl KeyError, calls) \<Rightarrow> (Inr (PyInt (- 1)), calls)
                 | (r, calls) \<Rightarrow> (r, calls))))"

section \<open>Wordnet\<close>

text \<open>
  \<^verbatim>\<open>self.wordnet.synsets\<close> is the lexical database: the sense entries of a lemma.
  \<^verbatim>\<open>find_wordnet_existence\<close> returns its result with the lemmas it looked up, in order.
\<close>

record 'syn Wordnet =
  synsets :: "string \<Rightarrow> 'syn list"

text \<open>\<^verbatim>\<open>candidate.replace(" ", "_")\<close>.\<close>

definition replace_sp :: "string \<Rightarrow> string" where
  "replace_sp candidate = map (\<lambda>c. if c = CHR '' '' then CHR ''_'' else c) candidate"

fun find_wordnet_existence :: "'syn Wordnet \<Rightarrow> string list \<Rightarrow> int \<times> string list" where
  "find_wordnet_existence self [] = (0, [])"
| "find_wordnet_existence self (candidate # rest) =
     (let candidate' = replace_sp candidate in
      if synsets self candidate' \<noteq> [] then (1, [candidate'])
      else (case find_wordnet_existence self rest of
              (r, looked_up) \<Rightarrow> (r, candidate' # looked_up)))"

section \<open>Notions used to state the properties\<close>

text \<open>
  What a read of key \<open>k\<close> of a \<^verbatim>\<open>defaultdict(list)\<close> returns, the table such a read
  leaves behind, and the fact that both tables \<^verbatim>\<open>get_pmi_score\<close> reads make lists.
\<close>

definition read_value :: "'s score_dict \<Rightarrow> string list \<Rightarrow> 's list" where
  "read_value d k = (case entries d k of None \<Rightarrow> [] | Some v \<Rightarrow> v)"

definition store_missing :: "'s score_dict \<Rightarrow> string list \<Rightarrow> 's score_dict" where
  "store_missing d k = (if entries d k = None then d\<lparr>entries := (entries d)(k \<mapsto> [])\<rparr> else d)"

definition list_factories :: "'s NLTKCollocations \<Rightarrow> bool" where
  "list_factories self \<longleftrightarrow>
     default_factory (pmi_dict self) = Some [] \<and> default_factory (chi_sq_dict self) = Some []"

text \<open>
  The knowledge-base specification calls a response positive when its status is 200 and
  its body is not the empty-bindings payload. \<open>spec_positive\<close> is that sentence;
  \<open>candidate_positive\<close> applies it to the response the network gives for a candidate.
\<close>

definition spec_positive :: "response \<Rightarrow> bool" where
  "spec_positive r \<longleftrightarrow> status_code r = 200 \<and> content r \<noteq> empty_result"

definition candidate_positive :: "http \<Rightarrow> Wikidata \<Rightarrow> string \<Rightarrow> bool" where
  "candidate_positive requests_get self c =
     (case requests_get (query_request self c) of Inl e \<Rightarrow> False | Inr r \<Rightarrow> spec_positive r)"

text \<open>
  The elements a loop visits when it stops at the first element satisfying \<open>hit\<close>:
  all the misses before it, then the hit itself if there is one.
\<close>

definition first_hit :: "('a \<Rightarrow> bool) \<Rightarrow> 'a list \<Rightarrow> 'a list" where
  "first_hit hit xs = takeWhile (\<lambda>x. \<not> hit x) xs @ take 1 (dropWhile (\<lambda>x. \<not> hit x) xs)"

section \<open>Example objects\<close>

text \<open>
  A corpus with the single bigram \<^verbatim>\<open>("ab", "ab")\<close>, the object the constructor builds from
  it, an embedding model knowing the single word \<^verbatim>\<open>ab\<close>, an object whose model is absent,
  a lexical database knowing \<^verbatim>\<open>new_york\<close>, and a network that answers \<^verbatim>\<open>aa\<close> with the
  empty-bindings payload, \<^verbatim>\<open>bb\<close> with another payload and fails on \<^verbatim>\<open>cc\<close>.
\<close>

definition example_finder :: "measure \<Rightarrow> real scored_bigrams" where
  "example_finder m =
     [((''ab'', ''ab''), (case m of Likelihood_ratio \<Rightarrow> 3 | Chi_sq \<Rightarrow> 7 | Pmi \<Rightarrow> 5))]"

definition example_table :: "real \<Rightarrow> real score_dict" where
  "example_table x = \<lparr>default_factory = Some [], entries = [[''ab'', ''ab''] \<mapsto> [x]]\<rparr>"

definition example_collocations :: "real NLTKCollocations" where
  "example_collocations =
     \<lparr>bigram_finder = example_finder, likelihood_ration_dict = example_table 3,
      chi_sq_dict = example_table 7, pmi_dict = example_table 5\<rparr>"

definition example_word2vec :: "real Word2Vec" where
  "example_word2vec =
     \<lparr>word2vec_model_path = ''model.bin'',
      model = Some \<lparr>vocab = [''ab'' \<mapsto> [0.5, 2]],
                    similarity = (\<lambda>a b. if a = ''ab'' \<and> b = ''ab'' then Inr 1 else Inl KeyError)\<rparr>\<rparr>"

definition unloaded_word2vec :: "real Word2Vec" where
  "unloaded_word2vec = \<lparr>word2vec_model_path = ''model.bin'', model = None\<rparr>"

definition example_wordnet :: "nat Wordnet" where
  "example_wordnet = \<lparr>synsets = (\<lambda>w. if w = ''new_york'' then [1, 2] else [])\<rparr>"

definition example_http :: http where
  "example_http q =
     (if q = query_request (Wikidata_init None None) ''aa''
        then Inr \<lparr>status_code = 200, content = empty_result\<rparr>
      else if q = query_request (Wikidata_init None None) ''bb''
        then Inr \<lparr>status_code = 200, content = ''{}''\<rparr>
      else if q = query_request (Wikidata_init None None) ''cc''
        then Inl (RequestException ''timeout'')
      else Inr \<lparr>status_code = 404, content = ''''\<rparr>)"

definition example_wikidata :: Wikidata where
  "example_wikidata = Wikidata_init None None"

section \<open>Splitting a phrase\<close>

lemma split_sp_not_Nil: "split_sp s \<noteq> []"
  by (induction s) auto

lemma length_split_sp: "length (split_sp s) = Suc (count_list s (CHR '' ''))"
proof (induction s)
  case Nil show ?case by simp
next
  case (Cons c cs)
  have "split_sp cs \<noteq> []" by (rule split_sp_not_Nil)
  then have "length (tl (split_sp cs)) = length (split_sp cs) - 1" by simp
  with Cons show ?case by (simp add: split_sp_not_Nil)
qed

lemma split_sp_no_space: "CHR '' '' \<notin> set s \<Longrightarrow> split_sp s = [s]"
  by (induction s) auto

lemma split_sp_append:
  "CHR '' '' \<notin> set a \<Longrightarrow> split_sp (a @ CHR '' '' # b) = a # split_sp b"
  by (induction a) auto

lemma split_candidates_total: "\<exists>cs. split_candidates phrase = Inr cs"
  using split_sp_not_Nil [of phrase]
  by (cases "split_sp phrase") (auto simp: split_candidates_def list_getitem_def Let_def)

text \<open>
  A word without a space is followed by its characters, one token each; a phrase of two
  such words is left as the pair.
\<close>

lemma split_candidates_word:
  "CHR '' '' \<notin> set w \<Longrightarrow> split_candidates w = Inr (w # map (\<lambda>c. [c]) w)"
  by (simp add: split_candidates_def split_sp_no_space list_getitem_def extend_str_def)

lemma split_candidates_pair:
  "CHR '' '' \<notin> set a \<Longrightarrow> CHR '' '' \<notin> set b \<Longrightarrow>
   split_candidates (a @ CHR '' '' # b) = Inr [a, b]"
  by (simp add: split_candidates_def split_sp_append split_sp_no_space)

lemma replace_sp_length: "length (replace_sp candidate) = length candidate"
  by (simp add: replace_sp_def)

lemma replace_sp_no_space: "CHR '' '' \<notin> set (replace_sp candidate)"
  by (auto simp: replace_sp_def)

lemma replace_sp_nth:
  "i < length candidate \<Longrightarrow>
   replace_sp candidate ! i = (if candidate ! i = CHR '' '' then CHR ''_'' else candidate ! i)"
  by (simp add: replace_sp_def)

section \<open>Properties of the bigram scorer\<close>

subsection \<open>Reads of a table whose factory makes lists\<close>

lemma dd_getitem_factory:
  "default_factory d = Some [] \<Longrightarrow> dd_getitem d k = Inr (read_value d k, store_missing d k)"
  by (simp add: dd_getitem_def read_value_def store_missing_def split: option.splits)

lemma store_missing_factory [simp]: "default_factory (store_missing d k) = default_factory d"
  by (simp add: store_missing_def)

lemma read_value_store_missing [simp]: "read_value (store_missing d k) k' = read_value d k'"
  by (simp add: store_missing_def read_value_def)

lemma pmi_try_factories:
  "list_factories self \<Longrightarrow>
   pmi_try self candidates rl =
     (None,
      rl @ [first_or_zero (read_value (pmi_dict self) candidates),
            first_or_zero (read_value (chi_sq_dict self) candidates)],
      self\<lparr>pmi_dict := store_missing (pmi_dict self) candidates,
           chi_sq_dict := store_missing (chi_sq_dict self) candidates\<rparr>)"
  by (simp add: pmi_try_def list_factories_def dd_getitem_factory Let_def)

lemma get_pmi_score_factories:
  "list_factories self \<Longrightarrow> split_candidates phrase = Inr candidates \<Longrightarrow>
   get_pmi_score self phrase =
     Inr ([first_or_zero (read_value (pmi_dict self) candidates),
           first_or_zero (read_value (chi_sq_dict self) candidates)],
          self\<lparr>pmi_dict := store_missing (pmi_dict self) candidates,
               chi_sq_dict := store_missing (chi_sq_dict self) candidates\<rparr>)"
  by (simp add: get_pmi_score_def pmi_try_factories)

lemma get_pmi_score_keeps:
  assumes "list_factories self" "get_pmi_score self phrase = Inr (r, self')"
  shows "list_factories self'"
    and "read_value (pmi_dict self') k = read_value (pmi_dict self) k"
    and "read_value (chi_sq_dict self') k = read_value (chi_sq_dict self) k"
    and "likelihood_ration_dict self' = likelihood_ration_dict self"
proof -
  obtain cs where cs: "split_candidates phrase = Inr cs"
    using split_candidates_total by blast
  from get_pmi_score_factories [OF assms(1) cs] assms(2)
  have s: "self' = self\<lparr>pmi_dict := store_missing (pmi_dict self) cs,
               chi_sq_dict := store_missing (chi_sq_dict self) cs\<rparr>" by simp
  show "list_factories self'" using assms(1) by (simp add: s list_factories_def)
  show "read_value (pmi_dict self') k = read_value (pmi_dict self) k" by (simp add: s)
  show "read_value (chi_sq_dict self') k = read_value (chi_sq_dict self) k" by (simp add: s)
  show "likelihood_ration_dict self' = likelihood_ration_dict self" by (simp add: s)
qed

lemma get_pmi_score_total:
  "list_factories self \<Longrightarrow> \<exists>r self'. get_pmi_score self phrase = Inr (r, self')"
  using split_candidates_total [of phrase] get_pmi_score_factories by blast

lemma pmi_calls_keeps:
  "list_factories self \<Longrightarrow>
   \<exists>self'. pmi_calls self phrases = Inr self' \<and> list_factories self' \<and>
     (\<forall>k. read_value (pmi_dict self') k = read_value (pmi_dict self) k) \<and>
     (\<forall>k. read_value (chi_sq_dict self') k = read_value (chi_sq_dict self) k) \<and>
     likelihood_ration_dict self' = likelihood_ration_dict self"
proof (induction phrases arbitrary: self)
  case Nil
  then show ?case by simp
next
  case (Cons p ps)
  obtain r s1 where s1: "get_pmi_score self p = Inr (r, s1)"
    using get_pmi_score_total [OF Cons.prems] by blast
  note k = get_pmi_score_keeps [OF Cons.prems s1]
  from Cons.IH [OF k(1)] obtain s2 where
    "pmi_calls s1 ps = Inr s2" "list_factories s2"
    "\<forall>k. read_value (pmi_dict s2) k = read_value (pmi_dict s1) k"
    "\<forall>k. read_value (chi_sq_dict s2) k = read_value (chi_sq_dict s1) k"
    "likelihood_ration_dict s2 = likelihood_ration_dict s1" by blast
  then show ?case using s1 k by simp
qed

lemma build_loop_factory:
  "default_factory d = Some [] \<Longrightarrow>
   \<exists>d'. build_loop d scored = Inr d' \<and> default_factory d' = Some []"
proof (induction scored arbitrary: d)
  case Nil
  then show ?case by simp
next
  case (Cons x xs)
  obtain key s where x: "x = (key, s)" by (cases x)
  show ?case using Cons.prems
    by (simp add: x dd_getitem_factory Cons.IH)
qed

lemma init_factories:
  "\<exists>self. NLTKCollocations_init finder = Inr self \<and> list_factories self"
proof -
  have f: "default_factory \<lparr>default_factory = Some ([] :: 's list), entries = Map.empty :: string list \<rightharpoonup> 's list\<rparr> = Some []"
    by simp
  obtain l where l: "build_bigram_score_dict finder Likelihood_ratio = Inr l"
    using build_loop_factory [OF f] unfolding build_bigram_score_dict_def by blast
  obtain c where c: "build_bigram_score_dict finder Chi_sq = Inr c" "default_factory c = Some []"
    using build_loop_factory [OF f] unfolding build_bigram_score_dict_def by blast
  obtain p where p: "build_bigram_score_dict finder Pmi = Inr p" "default_factory p = Some []"
    using build_loop_factory [OF f] unfolding build_bigram_score_dict_def by blast
  show ?thesis by (simp add: NLTKCollocations_init_def l c p list_factories_def)
qed

lemma reachable_factories:
  assumes "NLTKCollocations_init finder = Inr self0" "pmi_calls self0 earlier = Inr self"
  shows "list_factories self"
    and "read_value (pmi_dict self) k = read_value (pmi_dict self0) k"
    and "read_value (chi_sq_dict self) k = read_value (chi_sq_dict self0) k"
    and "likelihood_ration_dict self = likelihood_ration_dict self0"
proof -
  have f0: "list_factories self0" using init_factories [of finder] assms(1) by auto
  from pmi_calls_keeps [OF f0, of earlier] assms(2)
  show "list_factories self"
    and "read_value (pmi_dict self) k = read_value (pmi_dict self0) k"
    and "read_value (chi_sq_dict self) k = read_value (chi_sq_dict self0) k"
    and "likelihood_ration_dict self = likelihood_ration_dict self0"
    by auto
qed

subsection \<open>Single-word phrases\<close>

text \<open>
  C1 says that a single-word phrase is scored as the pair (word, word) by
  \<^verbatim>\<open>get_pmi_score\<close> and by \<^verbatim>\<open>get_similarity_score\<close>. The code extends the token list
  with the characters of the word, so \<^verbatim>\<open>"ab"\<close> becomes \<^verbatim>\<open>["ab", "a", "b"]\<close>: with the
  bigram \<^verbatim>\<open>("ab", "ab")\<close> in the tables and \<^verbatim>\<open>ab\<close> in the vocabulary, the phrase
  \<^verbatim>\<open>"ab"\<close> gets the scores \<^verbatim>\<open>[0, 0]\<close> and the similarity \<^verbatim>\<open>-1\<close>, while \<^verbatim>\<open>"ab ab"\<close>
  gets the scores of the bigram and the similarity the model computes.
\<close>

theorem single_word_not_self_paired:
  "NLTKCollocations_init example_finder = Inr example_collocations \<and>
   split_candidates ''ab'' = Inr [''ab'', ''a'', ''b''] \<and>
   split_candidates ''ab ab'' = Inr [''ab'', ''ab''] \<and>
   fst (projr (get_pmi_score example_collocations ''ab'')) = [PyInt 0, PyInt 0] \<and>
   fst (projr (get_pmi_score example_collocations ''ab ab'')) = [PyFloat 5, PyFloat 7] \<and>
   get_similarity_score example_word2vec ''ab'' = (Inr (PyInt (- 1)), []) \<and>
   get_similarity_score example_word2vec ''ab ab'' = (Inr (PyFloat 1), [(''ab'', ''ab'')])"
proof -
  have i: "NLTKCollocations_init example_finder = Inr example_collocations"
    by (simp add: NLTKCollocations_init_def build_bigram_score_dict_def example_finder_def
        dd_getitem_def example_collocations_def example_table_def)
  have k1: "split_candidates ''ab'' = Inr [''ab'', ''a'', ''b'']"
    by (simp add: split_candidates_def list_getitem_def extend_str_def)
  have k2: "split_candidates ''ab ab'' = Inr [''ab'', ''ab'']"
    by (simp add: split_candidates_def)
  have g1: "fst (projr (get_pmi_score example_collocations ''ab'')) = [PyInt 0, PyInt 0]"
    by (simp add: get_pmi_score_def k1 pmi_try_def dd_getitem_def example_collocations_def
        example_table_def first_or_zero_def)
  have g2: "fst (projr (get_pmi_score example_collocations ''ab ab'')) = [PyFloat 5, PyFloat 7]"
    by (simp add: get_pmi_score_def k2 pmi_try_def dd_getitem_def example_collocations_def
        example_table_def first_or_zero_def)
  have s1: "get_similarity_score example_word2vec ''ab'' = (Inr (PyInt (- 1)), [])"
    by (simp add: get_similarity_score_def k1)
  have s2: "get_similarity_score example_word2vec ''ab ab'' =
      (Inr (PyFloat 1), [(''ab'', ''ab'')])"
    by (simp add: get_similarity_score_def k2 similarity_try_def list_getitem_def
        example_word2vec_def)
  from i k1 k2 g1 g2 s1 s2 show ?thesis by blast
qed

subsection \<open>What a call changes in the tables\<close>

text \<open>
  C2 says that \<^verbatim>\<open>get_pmi_score\<close> leaves the three tables unchanged, key sets included.
  It does not: a read of a missing key stores the key. After the call on \<^verbatim>\<open>"cd ef"\<close> the
  table \<^verbatim>\<open>pmi_dict\<close> has the key \<^verbatim>\<open>("cd", "ef")\<close>, which it did not have before.
\<close>

theorem tables_modified_counterexample:
  "NLTKCollocations_init example_finder = Inr example_collocations \<and>
   entries (pmi_dict example_collocations) [''cd'', ''ef''] = None \<and>
   entries (pmi_dict (snd (projr (get_pmi_score example_collocations ''cd ef''))))
     [''cd'', ''ef''] = Some [] \<and>
   dom (entries (pmi_dict (snd (projr (get_pmi_score example_collocations ''cd ef''))))) \<noteq>
     dom (entries (pmi_dict example_collocations))"
proof -
  have i: "NLTKCollocations_init example_finder = Inr example_collocations"
    by (simp add: NLTKCollocations_init_def build_bigram_score_dict_def example_finder_def
        dd_getitem_def example_collocations_def example_table_def)
  have a: "entries (pmi_dict example_collocations) [''cd'', ''ef''] = None"
    by (simp add: example_collocations_def example_table_def)
  have b: "entries (pmi_dict (snd (projr (get_pmi_score example_collocations ''cd ef''))))
     [''cd'', ''ef''] = Some []"
    by (simp add: get_pmi_score_def split_candidates_def pmi_try_def dd_getitem_def
        example_collocations_def example_table_def)
  from a b have "dom (entries (pmi_dict (snd (projr (get_pmi_score example_collocations ''cd ef''))))) \<noteq>
     dom (entries (pmi_dict example_collocations))"
    by (metis domIff option.distinct(1))
  with i a b show ?thesis by blast
qed

text \<open>
  C2 as amended: on an object built by the constructor, after any earlier calls,
  \<^verbatim>\<open>get_pmi_score\<close> returns, leaves \<^verbatim>\<open>likelihood_ration_dict\<close> as it is, and changes
  \<^verbatim>\<open>pmi_dict\<close> and \<^verbatim>\<open>chi_sq_dict\<close> at most by storing the looked-up token tuple with an
  empty list when the tuple is missing; no entry is changed or removed, and a read of
  any key returns the same list as before the call.
\<close>

theorem get_pmi_score_frame:
  assumes "NLTKCollocations_init finder = Inr self0"
    and "pmi_calls self0 earlier = Inr self"
  shows "\<exists>r self' key.
           get_pmi_score self phrase = Inr (r, self') \<and>
           split_candidates phrase = Inr key \<and>
           likelihood_ration_dict self' = likelihood_ration_dict self \<and>
           pmi_dict self' = store_missing (pmi_dict self) key \<and>
           chi_sq_dict self' = store_missing (chi_sq_dict self) key \<and>
           (\<forall>k. read_value (pmi_dict self') k = read_value (pmi_dict self) k) \<and>
           (\<forall>k. read_value (chi_sq_dict self') k = read_value (chi_sq_dict self) k)"
proof -
  have f: "list_factories self" by (rule reachable_factories(1) [OF assms])
  obtain key where key: "split_candidates phrase = Inr key"
    using split_candidates_total by blast
  show ?thesis
    by (simp add: get_pmi_score_factories [OF f key] key)
qed

text \<open>
  The amended C2 on the example object, after a call on \<^verbatim>\<open>"ab"\<close>, for the phrase
  \<^verbatim>\<open>"cd ef"\<close>.
\<close>

theorem get_pmi_score_frame_witness:
  "NLTKCollocations_init example_finder = Inr example_collocations \<and>
   pmi_calls example_collocations [''ab''] =
     Inr (example_collocations
           \<lparr>pmi_dict := store_missing (example_table 5) [''ab'', ''a'', ''b''],
            chi_sq_dict := store_missing (example_table 7) [''ab'', ''a'', ''b'']\<rparr>) \<and>
   (\<exists>r self'.
      get_pmi_score
        (example_collocations
           \<lparr>pmi_dict := store_missing (example_table 5) [''ab'', ''a'', ''b''],
            chi_sq_dict := store_missing (example_table 7) [''ab'', ''a'', ''b'']\<rparr>)
        ''cd ef'' = Inr (r, self') \<and>
      likelihood_ration_dict self' = example_table 3 \<and>
      entries (pmi_dict self') [''cd'', ''ef''] = Some [] \<and>
      entries (pmi_dict self') [''ab'', ''ab''] = Some [5])"
proof -
  have i: "NLTKCollocations_init example_finder = Inr example_collocations"
    by (simp add: NLTKCollocations_init_def build_bigram_score_dict_def example_finder_def
        dd_getitem_def example_collocations_def example_table_def)
  have c: "pmi_calls example_collocations [''ab''] =
     Inr (example_collocations
           \<lparr>pmi_dict := store_missing (example_table 5) [''ab'', ''a'', ''b''],
            chi_sq_dict := store_missing (example_table 7) [''ab'', ''a'', ''b'']\<rparr>)"
  proof -
    have k1: "split_candidates ''ab'' = Inr [''ab'', ''a'', ''b'']"
      by (simp add: split_candidates_def list_getitem_def extend_str_def)
    have "get_pmi_score example_collocations ''ab'' =
      Inr ([PyInt 0, PyInt 0], example_collocations
           \<lparr>pmi_dict := store_missing (example_table 5) [''ab'', ''a'', ''b''],
            chi_sq_dict := store_missing (example_table 7) [''ab'', ''a'', ''b'']\<rparr>)"
      by (simp add: get_pmi_score_def k1 pmi_try_def dd_getitem_def example_collocations_def
          example_table_def store_missing_def first_or_zero_def)
    then show ?thesis by simp
  qed
  have k: "split_candidates ''cd ef'' = Inr [''cd'', ''ef'']"
    by (simp add: split_candidates_def)
  from get_pmi_score_frame [OF i c, of "''cd ef''"]
  obtain r self' key where
    g: "get_pmi_score
        (example_collocations
           \<lparr>pmi_dict := store_missing (example_table 5) [''ab'', ''a'', ''b''],
            chi_sq_dict := store_missing (example_table 7) [''ab'', ''a'', ''b'']\<rparr>)
        ''cd ef'' = Inr (r, self')"
    and kk: "split_candidates ''cd ef'' = Inr key"
    and l: "likelihood_ration_dict self' =
        likelihood_ration_dict (example_collocations
           \<lparr>pmi_dict := store_missing (example_table 5) [''ab'', ''a'', ''b''],
            chi_sq_dict := store_missing (example_table 7) [''ab'', ''a'', ''b'']\<rparr>)"
    and p: "pmi_dict self' =
        store_missing (pmi_dict (example_collocations
           \<lparr>pmi_dict := store_missing (example_table 5) [''ab'', ''a'', ''b''],
            chi_sq_dict := store_missing (example_table 7) [''ab'', ''a'', ''b'']\<rparr>)) key"
    by blast
  from kk k have key: "key = [''cd'', ''ef'']" by simp
  have l': "likelihood_ration_dict self' = example_table 3"
    using l by (simp add: example_collocations_def)
  have p1: "entries (pmi_dict self') [''cd'', ''ef''] = Some []"
    by (simp add: p key store_missing_def example_table_def)
  have p2: "entries (pmi_dict self') [''ab'', ''ab''] = Some [5]"
    by (simp add: p key store_missing_def example_table_def)
  show ?thesis using i c g l' p1 p2 by blast
qed

subsection \<open>Pairs the tables do not have\<close>

text \<open>
  C4: for a phrase whose tokens are a pair that the tables built by the constructor do not
  have, \<^verbatim>\<open>get_pmi_score\<close> returns the list \<^verbatim>\<open>[0, 0]\<close> and raises nothing, whatever calls
  came before.
\<close>

theorem absent_pair_scores_zero:
  assumes "NLTKCollocations_init finder = Inr self0"
    and "pmi_calls self0 earlier = Inr self"
    and "split_candidates phrase = Inr [t1, t2]"
    and "entries (pmi_dict self0) [t1, t2] = None"
    and "entries (chi_sq_dict self0) [t1, t2] = None"
  shows "\<exists>self'. get_pmi_score self phrase = Inr ([PyInt 0, PyInt 0], self')"
proof -
  note r = reachable_factories [OF assms(1,2)]
  have "read_value (pmi_dict self0) [t1, t2] = []"
    using assms(4) by (simp add: read_value_def)
  then have "read_value (pmi_dict self) [t1, t2] = []"
    by (simp add: r(2))
  moreover have "read_value (chi_sq_dict self0) [t1, t2] = []"
    using assms(5) by (simp add: read_value_def)
  then have "read_value (chi_sq_dict self) [t1, t2] = []"
    by (simp add: r(3))
  ultimately show ?thesis
    by (simp add: get_pmi_score_factories [OF r(1) assms(3)] first_or_zero_def)
qed

text \<open>
C4 on the example object, for the phrase \<^verbatim>\<open>"ab cd"\<close>.
\<close>

theorem absent_pair_scores_zero_witness:
  "NLTKCollocations_init example_finder = Inr example_collocations \<and>
   pmi_calls example_collocations [] = Inr example_collocations \<and>
   split_candidates ''ab cd'' = Inr [''ab'', ''cd''] \<and>
   entries (pmi_dict example_collocations) [''ab'', ''cd''] = None \<and>
   entries (chi_sq_dict example_collocations) [''ab'', ''cd''] = None \<and>
   (\<exists>self'. get_pmi_score example_collocations ''ab cd'' = Inr ([PyInt 0, PyInt 0], self'))"
proof -
  have i: "NLTKCollocations_init example_finder = Inr example_collocations"
    by (simp add: NLTKCollocations_init_def build_bigram_score_dict_def example_finder_def
        dd_getitem_def example_collocations_def example_table_def)
  have c: "pmi_calls example_collocations [] = Inr example_collocations" by simp
  have k: "split_candidates ''ab cd'' = Inr [''ab'', ''cd'']"
    by (simp add: split_candidates_def)
  have p: "entries (pmi_dict example_collocations) [''ab'', ''cd''] = None"
    by (simp add: example_collocations_def example_table_def)
  have q: "entries (chi_sq_dict example_collocations) [''ab'', ''cd''] = None"
    by (simp add: example_collocations_def example_table_def)
  from absent_pair_scores_zero [OF i c k p q] i c k p q show ?thesis by blast
qed

subsection \<open>The handler of KeyError\<close>

text \<open>
  C10: on an object built by the constructor, after any earlier calls and for every
  phrase, neither table read of \<^verbatim>\<open>get_pmi_score\<close> raises KeyError and the body of the
  \<^verbatim>\<open>try\<close> ends without an exception, so the \<^verbatim>\<open>except KeyError\<close> branch is never taken.
\<close>

theorem key_error_branch_unreachable:
  assumes "NLTKCollocations_init finder = Inr self0"
    and "pmi_calls self0 earlier = Inr self"
  shows "\<exists>candidates. split_candidates phrase = Inr candidates \<and>
           fst (pmi_try self candidates []) = None \<and>
           dd_getitem (pmi_dict self) candidates \<noteq> Inl KeyError \<and>
           dd_getitem (chi_sq_dict self) candidates \<noteq> Inl KeyError"
proof -
  have f: "list_factories self" by (rule reachable_factories(1) [OF assms])
  obtain cs where cs: "split_candidates phrase = Inr cs"
    using split_candidates_total by blast
  from f have "dd_getitem (pmi_dict self) cs \<noteq> Inl KeyError"
    and "dd_getitem (chi_sq_dict self) cs \<noteq> Inl KeyError"
    by (simp_all add: list_factories_def dd_getitem_factory)
  then show ?thesis using cs by (simp add: pmi_try_factories [OF f])
qed

text \<open>
C10 on the example object, for the phrase \<^verbatim>\<open>"zz"\<close>.
\<close>

theorem key_error_branch_unreachable_witness:
  "NLTKCollocations_init example_finder = Inr example_collocations \<and>
   pmi_calls example_collocations [] = Inr example_collocations \<and>
   (\<exists>candidates. split_candidates ''zz'' = Inr candidates \<and>
      fst (pmi_try example_collocations candidates []) = None \<and>
      dd_getitem (pmi_dict example_collocations) candidates \<noteq> Inl KeyError \<and>
      dd_getitem (chi_sq_dict example_collocations) candidates \<noteq> Inl KeyError)"
proof -
  have i: "NLTKCollocations_init example_finder = Inr example_collocations"
    by (simp add: NLTKCollocations_init_def build_bigram_score_dict_def example_finder_def
        dd_getitem_def example_collocations_def example_table_def)
  have c: "pmi_calls example_collocations [] = Inr example_collocations" by simp
  from key_error_branch_unreachable [OF i c, of "''zz''"] i c show ?thesis by blast
qed

section \<open>Properties of the embedding adapter\<close>

text \<open>
  C3: for every phrase that splits on spaces into more than two tokens,
  \<^verbatim>\<open>get_similarity_score\<close> returns the int \<^verbatim>\<open>-1\<close> and makes no call of the model's
  \<^verbatim>\<open>similarity\<close>, whatever the model is.
\<close>

theorem get_similarity_score_long:
  assumes "length (split_sp noun_phrase) > 2"
  shows "get_similarity_score self noun_phrase = (Inr (PyInt (- 1)), [])"
  using assms by (simp add: get_similarity_score_def split_candidates_def Let_def)

text \<open>
C3 on the example model, for the phrase \<^verbatim>\<open>"a b c"\<close>.
\<close>

theorem get_similarity_score_long_witness:
  "length (split_sp ''a b c'') > 2 \<and>
   get_similarity_score example_word2vec ''a b c'' = (Inr (PyInt (- 1)), [])"
proof -
  have h: "length (split_sp ''a b c'') > 2" by simp
  from get_similarity_score_long [OF h, of example_word2vec] h show ?thesis by blast
qed

text \<open>
  C5: \<^verbatim>\<open>get_word_embedding\<close> returns the vector of 300 entries \<^verbatim>\<open>-1\<close> when the model is
  absent and when the word is not in the vocabulary of the model; otherwise it returns
  the vector the model has for the word.
\<close>

theorem get_word_embedding_cases:
  "(model (self :: 's Word2Vec) = None \<longrightarrow> get_word_embedding self word = Inr np_full_300) \<and>
   (\<forall>m. model self = Some m \<and> vocab m word = None \<longrightarrow>
      get_word_embedding self word = Inr np_full_300) \<and>
   (\<forall>m v. model self = Some m \<and> vocab m word = Some v \<longrightarrow>
      get_word_embedding self word = Inr (map PyFloat v)) \<and>
   length (np_full_300 :: 's pyval list) = 300 \<and>
   set (np_full_300 :: 's pyval list) = {PyInt (- 1)}"
  by (auto simp: get_word_embedding_def word_vec_def np_full_300_def)

text \<open>
C5 on the object without a model and on the example model, for a word in and a word
  outside the vocabulary.
\<close>

theorem get_word_embedding_cases_witness:
  "model example_word2vec \<noteq> None \<and>
   get_word_embedding unloaded_word2vec ''ab'' = Inr np_full_300 \<and>
   get_word_embedding example_word2vec ''zz'' = Inr np_full_300 \<and>
   get_word_embedding example_word2vec ''ab'' = Inr [PyFloat 0.5, PyFloat 2]"
proof -
  have m: "model example_word2vec =
      Some \<lparr>vocab = [''ab'' \<mapsto> [0.5, 2]],
            similarity = (\<lambda>a b. if a = ''ab'' \<and> b = ''ab'' then Inr 1 else Inl KeyError)\<rparr>"
    by (simp add: example_word2vec_def)
  have a: "get_word_embedding unloaded_word2vec ''ab'' = Inr np_full_300"
    using get_word_embedding_cases [of unloaded_word2vec "''ab''"]
    by (simp add: unloaded_word2vec_def)
  have b: "get_word_embedding example_word2vec ''zz'' = Inr np_full_300"
    using get_word_embedding_cases [of example_word2vec "''zz''"] by (simp add: m)
  have c: "get_word_embedding example_word2vec ''ab'' = Inr [PyFloat 0.5, PyFloat 2]"
    using get_word_embedding_cases [of example_word2vec "''ab''"] by (simp add: m)
  from m a b c show ?thesis by simp
qed

text \<open>
  C9 says that \<^verbatim>\<open>get_similarity_score\<close> raises IndexError for the empty phrase. The
  \<^verbatim>\<open>try\<close> tests the model first: on an object whose model is absent the call returns
  \<^verbatim>\<open>-1\<close>.
\<close>

theorem get_similarity_score_empty_counterexample:
  "get_similarity_score unloaded_word2vec '''' = (Inr (PyInt (- 1)), [])"
  by (simp add: unloaded_word2vec_def get_similarity_score_def split_candidates_def list_getitem_def
      extend_str_def similarity_try_def)

text \<open>
  C9 as amended: for the empty phrase, \<^verbatim>\<open>get_similarity_score\<close> raises IndexError, out of
  the \<^verbatim>\<open>try\<close> and without a call of \<^verbatim>\<open>similarity\<close>, when the model is present; it
  returns \<^verbatim>\<open>-1\<close> when the model is absent.
\<close>

theorem get_similarity_score_empty:
  "(model self \<noteq> None \<longrightarrow> get_similarity_score self [] = (Inl IndexError, [])) \<and>
   (model self = None \<longrightarrow> get_similarity_score self [] = (Inr (PyInt (- 1)), []))"
  by (auto simp: get_similarity_score_def split_candidates_def list_getitem_def
      extend_str_def similarity_try_def)

text \<open>
The amended C9 on the example model and on the object without a model.
\<close>

theorem get_similarity_score_empty_witness:
  "model example_word2vec \<noteq> None \<and>
   get_similarity_score example_word2vec '''' = (Inl IndexError, []) \<and>
   model unloaded_word2vec = None \<and>
   get_similarity_score unloaded_word2vec '''' = (Inr (PyInt (- 1)), [])"
proof -
  have m: "model example_word2vec \<noteq> None" by (simp add: example_word2vec_def)
  have n: "model unloaded_word2vec = None" by (simp add: unloaded_word2vec_def)
  from get_similarity_score_empty [of example_word2vec]
    get_similarity_score_empty [of unloaded_word2vec] m n
  show ?thesis by blast
qed

section \<open>Properties of the knowledge-base checker\<close>

lemma first_hit_Nil [simp]: "first_hit hit [] = []"
  by (simp add: first_hit_def)

lemma first_hit_Cons [simp]:
  "first_hit hit (x # xs) = (if hit x then [x] else x # first_hit hit xs)"
  by (simp add: first_hit_def)

lemma distinct_first_hit: "distinct xs \<Longrightarrow> distinct (first_hit hit xs)"
proof (induction xs)
  case Nil
  show ?case by simp
next
  case (Cons x xs)
  have "set (first_hit hit xs) \<subseteq> set xs"
    unfolding first_hit_def using set_takeWhileD set_dropWhileD
    by (auto dest: in_set_takeD set_takeWhileD set_dropWhileD)
  with Cons show ?case by auto
qed

lemma query_request_inj: "query_request self p = query_request self q \<Longrightarrow> p = q"
  by (simp add: query_request_def)

lemma query_request_eq_iff [simp]:
  "query_request self p = query_request self q \<longleftrightarrow> p = q"
  by (auto dest: query_request_inj)

lemma has_item_response:
  "requests_get (query_request self phrase) = Inr r \<Longrightarrow>
   has_item requests_get self phrase = (Inr (spec_positive r), [query_request self phrase])"
  by (auto simp: has_item_def spec_positive_def Let_def)

lemma has_item_error:
  "requests_get (query_request self phrase) = Inl e \<Longrightarrow>
   has_item requests_get self phrase = (Inl e, [query_request self phrase])"
  by (simp add: has_item_def Let_def)

lemma wikidata_loop_no_error:
  "\<forall>c\<in>set order. \<exists>r. requests_get (query_request self c) = Inr r \<Longrightarrow>
   wikidata_loop requests_get self order =
     (Inr (if \<exists>c\<in>set order. candidate_positive requests_get self c then 1 else 0),
      map (query_request self) (first_hit (candidate_positive requests_get self) order))"
proof (induction order)
  case Nil
  show ?case by simp
next
  case (Cons c cs)
  from Cons.prems obtain r where r: "requests_get (query_request self c) = Inr r" by auto
  have p: "candidate_positive requests_get self c = spec_positive r"
    by (simp add: candidate_positive_def r)
  from Cons.prems have "\<forall>c\<in>set cs. \<exists>r. requests_get (query_request self c) = Inr r" by simp
  note IH = Cons.IH [OF this]
  show ?case
  proof (cases "spec_positive r")
    case True
    then show ?thesis by (simp add: has_item_response [of requests_get self c r, OF r] p)
  next
    case False
    then show ?thesis by (simp add: has_item_response [of requests_get self c r, OF r] p IH)
  qed
qed

lemma wikidata_loop_error:
  "\<forall>c\<in>set before. fst (has_item requests_get self c) = Inr False \<Longrightarrow>
   requests_get (query_request self phrase) = Inl e \<Longrightarrow>
   wikidata_loop requests_get self (before @ phrase # rest) =
     (Inl e, map (query_request self) (before @ [phrase]))"
proof (induction before)
  case Nil
  then show ?case by (simp add: has_item_error)
next
  case (Cons c cs)
  from Cons.prems have f: "fst (has_item requests_get self c) = Inr False" by simp
  have "snd (has_item requests_get self c) = [query_request self c]"
    by (simp add: has_item_def Let_def split: sum.splits)
  with f have h: "has_item requests_get self c = (Inr False, [query_request self c])"
    by (metis prod.collapse)
  from Cons show ?case by (simp add: h)
qed

lemma example_http_aa:
  "example_http (query_request example_wikidata ''aa'') =
     Inr \<lparr>status_code = 200, content = empty_result\<rparr>"
  by (simp add: example_http_def example_wikidata_def)

lemma example_http_bb:
  "example_http (query_request example_wikidata ''bb'') =
     Inr \<lparr>status_code = 200, content = ''{}''\<rparr>"
  by (simp add: example_http_def example_wikidata_def)

lemma example_http_cc:
  "example_http (query_request example_wikidata ''cc'') = Inl (RequestException ''timeout'')"
  by (simp add: example_http_def example_wikidata_def)

lemma braces_not_empty_result: "''{}'' \<noteq> empty_result"
  by (simp add: empty_result_def)

text \<open>
  C6: when every candidate's request gets a response, \<^verbatim>\<open>find_wikidata_existence\<close>
  returns 1 if some candidate is positive and 0 otherwise, in whatever order the set is
  visited; the requests it sends are those of the distinct candidates in that order up to
  and including the first positive one, each once; and \<^verbatim>\<open>has_item\<close> is true exactly when
  the response has status 200 and a body other than \<^verbatim>\<open>empty_result\<close>.
\<close>

theorem find_wikidata_existence_first_positive:
  assumes "py_set_iteration candidates (set_iter candidates)"
    and "\<forall>c\<in>set candidates. \<exists>r. requests_get (query_request self c) = Inr r"
  shows "find_wikidata_existence requests_get set_iter self candidates =
           (Inr (if \<exists>c\<in>set candidates. candidate_positive requests_get self c then 1 else 0),
            map (query_request self)
              (first_hit (candidate_positive requests_get self) (set_iter candidates))) \<and>
         distinct (snd (find_wikidata_existence requests_get set_iter self candidates)) \<and>
         (\<forall>c r. requests_get (query_request self c) = Inr r \<longrightarrow>
            has_item requests_get self c =
              (Inr (status_code r = 200 \<and> content r \<noteq> empty_result), [query_request self c]))"
proof -
  from assms(1) have d: "distinct (set_iter candidates)"
    and s: "set (set_iter candidates) = set candidates"
    by (simp_all add: py_set_iteration_def)
  from assms(2) s
  have "\<forall>c\<in>set (set_iter candidates). \<exists>r. requests_get (query_request self c) = Inr r"
    by simp
  from wikidata_loop_no_error [OF this]
  have l: "find_wikidata_existence requests_get set_iter self candidates =
           (Inr (if \<exists>c\<in>set candidates. candidate_positive requests_get self c then 1 else 0),
            map (query_request self)
              (first_hit (candidate_positive requests_get self) (set_iter candidates)))"
    by (simp add: find_wikidata_existence_def s)
  have "inj_on (query_request self) A" for A
    by (rule inj_onI) (rule query_request_inj)
  then have "distinct (map (query_request self)
              (first_hit (candidate_positive requests_get self) (set_iter candidates)))"
    by (simp add: distinct_map distinct_first_hit [OF d])
  with l show ?thesis
    using has_item_response [of requests_get self] by (auto simp: spec_positive_def)
qed

text \<open>
  C6 on the example network, for the candidates \<^verbatim>\<open>aa\<close>, \<^verbatim>\<open>bb\<close>, \<^verbatim>\<open>aa\<close> visited in
  the order \<^verbatim>\<open>aa\<close>, \<^verbatim>\<open>bb\<close>.
\<close>

theorem find_wikidata_existence_first_positive_witness:
  "py_set_iteration [''aa'', ''bb'', ''aa''] (rev (remdups [''aa'', ''bb'', ''aa''])) \<and>
   example_http (query_request example_wikidata ''aa'') =
     Inr \<lparr>status_code = 200, content = empty_result\<rparr> \<and>
   example_http (query_request example_wikidata ''bb'') =
     Inr \<lparr>status_code = 200, content = ''{}''\<rparr> \<and>
   find_wikidata_existence example_http (\<lambda>cs. rev (remdups cs)) example_wikidata
       [''aa'', ''bb'', ''aa''] =
     (Inr 1, [query_request example_wikidata ''aa'', query_request example_wikidata ''bb'']) \<and>
   has_item example_http example_wikidata ''aa'' =
     (Inr False, [query_request example_wikidata ''aa'']) \<and>
   has_item example_http example_wikidata ''bb'' =
     (Inr True, [query_request example_wikidata ''bb''])"
proof -
  have o: "py_set_iteration [''aa'', ''bb'', ''aa''] (rev (remdups [''aa'', ''bb'', ''aa'']))"
    by (auto simp: py_set_iteration_def)
  have r: "\<forall>c\<in>set [''aa'', ''bb'', ''aa''].
      \<exists>r. example_http (query_request example_wikidata c) = Inr r"
    by (simp add: example_http_aa example_http_bb)
  have na: "\<not> candidate_positive example_http example_wikidata ''aa''"
    by (simp add: candidate_positive_def example_http_aa spec_positive_def)
  have pb: "candidate_positive example_http example_wikidata ''bb''"
    using braces_not_empty_result
    by (simp add: candidate_positive_def example_http_bb spec_positive_def)
  note t = find_wikidata_existence_first_positive
    [of "[''aa'', ''bb'', ''aa'']" "\<lambda>cs. rev (remdups cs)" example_http example_wikidata, OF o r]
  from t example_http_aa
  have ha: "has_item example_http example_wikidata ''aa'' =
     (Inr False, [query_request example_wikidata ''aa''])"
    by fastforce
  from t example_http_bb braces_not_empty_result
  have hb: "has_item example_http example_wikidata ''bb'' =
     (Inr True, [query_request example_wikidata ''bb''])"
    by fastforce
  from t
  have "find_wikidata_existence example_http (\<lambda>cs. rev (remdups cs)) example_wikidata
       [''aa'', ''bb'', ''aa''] =
     (Inr 1, [query_request example_wikidata ''aa'', query_request example_wikidata ''bb''])"
    using na pb by simp
  with o example_http_aa example_http_bb ha hb show ?thesis by blast
qed

text \<open>
  C8: when the request for a phrase raises a transport error, \<^verbatim>\<open>has_item\<close> ends with
  that same error after sending the request once; and \<^verbatim>\<open>find_wikidata_existence\<close>, when
  it reaches that phrase after misses only, ends with that same error, having sent no
  request after the failed one.
\<close>

theorem transport_error_propagates:
  assumes "requests_get (query_request self phrase) = Inl e"
  shows "has_item requests_get self phrase = (Inl e, [query_request self phrase]) \<and>
         (\<forall>before rest.
            set_iter candidates = before @ phrase # rest \<and>
            (\<forall>c\<in>set before. fst (has_item requests_get self c) = Inr False) \<longrightarrow>
            find_wikidata_existence requests_get set_iter self candidates =
              (Inl e, map (query_request self) (before @ [phrase])))"
  using assms
  by (simp add: has_item_error find_wikidata_existence_def wikidata_loop_error)

text \<open>
  C8 on the example network, for the candidates \<^verbatim>\<open>aa\<close>, \<^verbatim>\<open>cc\<close>, \<^verbatim>\<open>bb\<close>: the request
  for \<^verbatim>\<open>cc\<close> fails and \<^verbatim>\<open>bb\<close> is never asked.
\<close>

theorem transport_error_propagates_witness:
  "example_http (query_request example_wikidata ''cc'') = Inl (RequestException ''timeout'') \<and>
   has_item example_http example_wikidata ''cc'' =
     (Inl (RequestException ''timeout''), [query_request example_wikidata ''cc'']) \<and>
   find_wikidata_existence example_http remdups example_wikidata [''aa'', ''cc'', ''bb''] =
     (Inl (RequestException ''timeout''),
      [query_request example_wikidata ''aa'', query_request example_wikidata ''cc''])"
proof -
  note t = transport_error_propagates [of example_http example_wikidata "''cc''"
      "RequestException ''timeout''" remdups "[''aa'', ''cc'', ''bb'']", OF example_http_cc]
  have o: "remdups [''aa'', ''cc'', ''bb''] = [''aa''] @ ''cc'' # [''bb'']" by simp
  have f: "\<forall>c\<in>set [''aa'']. fst (has_item example_http example_wikidata c) = Inr False"
    by (simp add: has_item_def example_http_aa)
  from t have h: "has_item example_http example_wikidata ''cc'' =
     (Inl (RequestException ''timeout''), [query_request example_wikidata ''cc''])" by blast
  from t o f have "find_wikidata_existence example_http remdups example_wikidata
      [''aa'', ''cc'', ''bb''] =
     (Inl (RequestException ''timeout''), map (query_request example_wikidata) ([''aa''] @ [''cc'']))"
    by blast
  with h example_http_cc show ?thesis by simp
qed

section \<open>Properties of the lexical-database checker\<close>

text \<open>
  C7: \<^verbatim>\<open>find_wordnet_existence\<close> looks the candidates up in list order, each with its
  spaces replaced by underscores, stops at the first one that has a sense entry and
  returns 1 then; it returns 0 when no candidate has one.
\<close>

theorem find_wordnet_existence_first_hit:
  "find_wordnet_existence self candidates =
     ((if \<exists>c\<in>set candidates. synsets self (replace_sp c) \<noteq> [] then 1 else 0),
      map replace_sp (first_hit (\<lambda>c. synsets self (replace_sp c) \<noteq> []) candidates))"
  by (induction candidates) (auto simp: Let_def)

text \<open>
C7 on the example database, for the candidates \<^verbatim>\<open>xx\<close>, \<^verbatim>\<open>new york\<close>, \<^verbatim>\<open>zz\<close>.
\<close>

theorem find_wordnet_existence_first_hit_witness:
  "find_wordnet_existence example_wordnet [''xx'', ''new york'', ''zz''] =
     (1, [''xx'', ''new_york''])"
  using find_wordnet_existence_first_hit [of example_wordnet "[''xx'', ''new york'', ''zz'']"]
  by (simp add: replace_sp_def example_wordnet_def)

end
